theory Spec2Isabelle
  imports Main "HOL-Library.AList"
begin

section \<open>The identifier store of \<^verbatim>\<open>api/index.py\<close>\<close>

text \<open>
  The service keeps two module globals: \<^verbatim>\<open>video_counter = 1\<close> and the dictionary
  \<^verbatim>\<open>video_storage = {}\<close>. A Python dictionary accepts keys of any hashable type, and an
  \<^verbatim>\<open>int\<close> key never equals a \<^verbatim>\<open>str\<close> key (\<^verbatim>\<open>1 == "1"\<close> is false), so the key type
  keeps the two apart. Python integers are unbounded: \<open>int\<close>.
\<close>

datatype pykey = PInt int | PStr string

text \<open>The stored value \<^verbatim>\<open>{"url": url, "filename": filename or "video.mp4"}\<close>.\<close>

record video_info =
  info_url :: string
  info_filename :: string

record store =
  video_counter :: int
  video_storage :: "pykey \<rightharpoonup> video_info"

definition initial_store :: store where
  "initial_store = \<lparr>video_counter = 1, video_storage = Map.empty\<rparr>"

text \<open>
  \<^verbatim>\<open>x or d\<close> on an optional string: \<^verbatim>\<open>None\<close> and the empty string are falsy.
\<close>

fun py_or :: "string option \<Rightarrow> string \<Rightarrow> string" where
  "py_or None d = d"
| "py_or (Some x) d = (if x = [] then d else x)"

text \<open>
  \<^verbatim>\<open>
  def store_video_url(url, filename=None):
      global video_counter
      vid = video_counter
      video_storage[vid] = {"url": url, "filename": filename or "video.mp4"}
      video_counter += 1
      return vid
  \<close>
\<close>

definition store_video_url :: "string \<Rightarrow> string option \<Rightarrow> store \<Rightarrow> int \<times> store" where
  "store_video_url u fname s =
     (let vid = video_counter s;
          s1 = s\<lparr>video_storage := (video_storage s)(PInt vid \<mapsto>
                 \<lparr>info_url = u, info_filename = py_or fname ''video.mp4''\<rparr>)\<rparr>;
          s2 = s1\<lparr>video_counter := video_counter s1 + 1\<rparr>
      in (vid, s2))"

text \<open>
  A run of consecutive \<^verbatim>\<open>store_video_url\<close> calls, each on the state the previous one
  left, collecting the returned ids in call order. \<^verbatim>\<open>store_video_url\<close> is the only code
  that writes either global, so every state of the running service is
  \<open>snd (store_all calls initial_store)\<close> for the calls made so far.
\<close>

fun store_all :: "(string \<times> string option) list \<Rightarrow> store \<Rightarrow> int list \<times> store" where
  "store_all [] s = ([], s)"
| "store_all (c # calls) s =
     (let (vid, s1) = store_video_url (fst c) (snd c) s;
          (vids, s2) = store_all calls s1
      in (vid # vids, s2))"

text \<open>
  The invariant of the running service: every key of the dictionary is an \<^verbatim>\<open>int\<close>
  between 1 and the counter (exclusive).
\<close>

definition int_keys_below :: "store \<Rightarrow> bool" where
  "int_keys_below s =
     (\<forall>k. k \<in> dom (video_storage s) \<longrightarrow> (\<exists>n. k = PInt n \<and> 1 \<le> n \<and> n < video_counter s))"

section \<open>Strings\<close>

text \<open>\<^verbatim>\<open>str(n)\<close> of an integer, as the f-strings of \<^verbatim>\<open>shorten\<close> render \<^verbatim>\<open>{vid}\<close>.\<close>

fun str_nat :: "nat \<Rightarrow> string" where
  "str_nat n =
     (if n < 10 then [''0123456789'' ! n]
      else str_nat (n div 10) @ [''0123456789'' ! (n mod 10)])"

declare str_nat.simps [simp del]

definition py_str :: "int \<Rightarrow> string" where
  "py_str i = (if i < 0 then CHR ''-'' # str_nat (nat (- i)) else str_nat (nat i))"

text \<open>\<^verbatim>\<open>s.find(sub)\<close>: the index of the first occurrence, \<open>None\<close> for Python's \<open>-1\<close>.\<close>

fun py_find :: "string \<Rightarrow> string \<Rightarrow> nat option" where
  "py_find sub [] = (if sub = [] then Some 0 else None)"
| "py_find sub (c # cs) =
     (if take (length sub) (c # cs) = sub then Some 0
      else map_option Suc (py_find sub cs))"

text \<open>\<^verbatim>\<open>s.rstrip('/')\<close>.\<close>

definition rstrip_slash :: "string \<Rightarrow> string" where
  "rstrip_slash s = rev (dropWhile (\<lambda>c. c = CHR ''/'') (rev s))"

text \<open>Truthiness of an optional string: \<^verbatim>\<open>None\<close> and \<^verbatim>\<open>""\<close> are falsy.\<close>

fun truthy :: "string option \<Rightarrow> bool" where
  "truthy None = False"
| "truthy (Some x) = (x \<noteq> [])"

section \<open>Exceptions and the libraries the handlers call\<close>

text \<open>
  \<^verbatim>\<open>stream_video\<close> catches \<^verbatim>\<open>requests.exceptions.RequestException\<close>, the base class of
  every failure the \<^verbatim>\<open>requests\<close> library reports (timeouts and connection errors
  among them); \<^verbatim>\<open>validate_url\<close> catches \<^verbatim>\<open>Exception\<close>. An exception carries the text
  that \<^verbatim>\<open>str(e)\<close> returns.
\<close>

datatype request_failure = Timeout | ConnectionError | OtherRequestFailure

datatype exn = RequestException request_failure string | OtherException string

text \<open>The two attributes of \<^verbatim>\<open>urlparse\<close>'s result that the code reads.\<close>

record parse_result =
  scheme :: string
  netloc :: string

text \<open>
  The call \<^verbatim>\<open>requests.get(original_url, headers=headers, stream=True, timeout=30)\<close>.
  Its first argument is \<^verbatim>\<open>video_storage[video_id]\<close>, the stored dictionary itself.
\<close>

record outbound_request =
  out_url :: video_info
  out_headers :: "(string \<times> string) list"
  out_stream :: bool
  out_timeout :: int

text \<open>
  What the handler reads of the upstream response: \<^verbatim>\<open>status_code\<close>,
  \<^verbatim>\<open>headers.get(name)\<close> and the iterator \<^verbatim>\<open>iter_content(chunk_size)\<close>. The iterator is
  consumed lazily: it yields the chunks of its first component and then either ends
  (\<open>None\<close>) or raises the exception of its second component, as when the upstream breaks
  off in the middle of the body.
\<close>

record upstream_response =
  status_code :: int
  up_headers :: "string \<rightharpoonup> string"
  iter_content :: "nat \<Rightarrow> string list \<times> exn option"

text \<open>
  \<^verbatim>\<open>urllib.parse\<close> and \<^verbatim>\<open>requests\<close> are not part of the repository: the handlers take
  them as a parameter. Each function returns its value or the exception it raises.
\<close>

record pylib =
  unquote :: "string \<Rightarrow> exn + string"
  urlparse :: "string \<Rightarrow> exn + parse_result"
  requests_get :: "outbound_request \<Rightarrow> exn + upstream_response"

section \<open>Requests and responses of the service\<close>

text \<open>
  What the handlers read of Flask's \<^verbatim>\<open>request\<close>: the method, \<^verbatim>\<open>get_json(silent=True)\<close>
  (\<open>None\<close> when there is no JSON body; the model covers JSON objects whose members are
  strings), \<^verbatim>\<open>query_string.decode('utf-8')\<close> (a value or the decoding error),
  \<^verbatim>\<open>args.get\<close>, \<^verbatim>\<open>host_url\<close> and \<^verbatim>\<open>headers.get\<close>.
\<close>

record request =
  req_method :: string
  get_json :: "(string \<rightharpoonup> string) option"
  query_string :: "exn + string"
  args :: "string \<rightharpoonup> string"
  host_url :: string
  req_headers :: "string \<rightharpoonup> string"

datatype jval = JBool bool | JInt int | JStr string

text \<open>
  A streamed body is produced while the response is sent, after the handler has returned:
  the chunks that reach the client and, when the generator raises in the middle, the
  exception that ends the stream (no handler code catches it).
\<close>

datatype payload =
    Json "(string \<times> jval) list"
  | Template string "(string \<times> string) list"
  | Streamed "string list" "exn option"

record http_response =
  resp_status :: int
  resp_headers :: "(string \<times> string) list"
  resp_body :: payload

text \<open>
  \<^verbatim>\<open>jsonify(d)\<close> and \<^verbatim>\<open>jsonify(d), code\<close>; \<^verbatim>\<open>render_template(name, **context)\<close>, of
  which the model keeps the template name and the context (the template file is not
  part of the source). A response lists the headers that the handler sets; those that
  the framework adds by itself are left out.
\<close>

definition jsonify :: "(string \<times> jval) list \<Rightarrow> int \<Rightarrow> http_response" where
  "jsonify d code = \<lparr>resp_status = code, resp_headers = [], resp_body = Json d\<rparr>"

definition render_template :: "string \<Rightarrow> (string \<times> string) list \<Rightarrow> http_response" where
  "render_template name context =
     \<lparr>resp_status = 200, resp_headers = [], resp_body = Template name context\<rparr>"

section \<open>The handlers\<close>

text \<open>
  \<^verbatim>\<open>
  def validate_url(url):
      try:
          decoded_url = unquote(url)
          parsed = urlparse(decoded_url)
          if parsed.scheme not in ['http', 'https']:
              return False
          if not parsed.netloc:
              return False
          return True
      except Exception:
          return False
  \<close>
\<close>

definition validate_url :: "pylib \<Rightarrow> string \<Rightarrow> bool" where
  "validate_url L u =
     (case unquote L u of
        Inl e \<Rightarrow> False
      | Inr decoded_url \<Rightarrow>
          (case urlparse L decoded_url of
             Inl e \<Rightarrow> False
           | Inr parsed \<Rightarrow>
               if scheme parsed \<notin> set [''http'', ''https''] then False
               else if netloc parsed = [] then False
               else True))"

text \<open>
  \<^verbatim>\<open>
  def extract_full_url(request):
      query_string = request.query_string.decode('utf-8')
      if 'url=' in query_string:
          url_start = query_string.find('url=') + 4
          full_url = query_string[url_start:]
          return unquote(full_url)
      return None
  \<close>
  Nothing here catches an exception: a failure of \<^verbatim>\<open>decode\<close> or \<^verbatim>\<open>unquote\<close> leaves
  the function.
\<close>

definition extract_full_url :: "pylib \<Rightarrow> request \<Rightarrow> exn + string option" where
  "extract_full_url L req =
     (case query_string req of
        Inl e \<Rightarrow> Inl e
      | Inr qs \<Rightarrow>
          (case py_find ''url='' qs of
             None \<Rightarrow> Inr None
           | Some i \<Rightarrow>
               (let url_start = i + 4;
                    full_url = drop url_start qs
                in case unquote L full_url of
                     Inl e \<Rightarrow> Inl e
                   | Inr r \<Rightarrow> Inr (Some r))))"

text \<open>
  \<^verbatim>\<open>shorten\<close> (route \<^verbatim>\<open>/shorten\<close>, methods GET and POST). The first stage picks
  \<^verbatim>\<open>long_url\<close> and \<^verbatim>\<open>filename\<close>:
  \<^verbatim>\<open>
      long_url = None
      filename = None
      if request.method == 'POST':
          data = request.get_json(silent=True) or {}
          long_url = data.get('url')
          filename = data.get('name')
      if not long_url:
          long_url = extract_full_url(request) or request.args.get('url')
          filename = request.args.get('name')
  \<close>
\<close>

definition shorten_inputs :: "pylib \<Rightarrow> request \<Rightarrow> exn + (string option \<times> string option)" where
  "shorten_inputs L req =
     (let data = (case get_json req of None \<Rightarrow> Map.empty | Some d \<Rightarrow> d);
          long_url = (if req_method req = ''POST'' then data ''url'' else None);
          filename = (if req_method req = ''POST'' then data ''name'' else None)
      in if \<not> truthy long_url then
           (case extract_full_url L req of
              Inl e \<Rightarrow> Inl e
            | Inr x \<Rightarrow> Inr (if truthy x then x else args req ''url'', args req ''name''))
         else Inr (long_url, filename))"

text \<open>
  The rest of the handler:
  \<^verbatim>\<open>
      if not long_url:
          return jsonify({"success": False, "error": "No URL provided."}), 400
      if not validate_url(long_url):
          return jsonify({"success": False, "error": "Invalid URL."}), 400
      vid = store_video_url(long_url, filename)
      host = request.host_url.rstrip('/')
      short_url = f"{host}/{filename or 'video.mp4'}/download/{vid}"
      player_url = f"{host}/player?vid={vid}&name={filename or 'video.mp4'}"
      cdn_url = f"{host}/cdn/{vid}"
      return jsonify({"success": True, "video_id": vid, "short_url": short_url,
                      "player_url": player_url, "cdn_url": cdn_url,
                      "filename": filename or "video.mp4"})
  \<close>
\<close>

definition shorten :: "pylib \<Rightarrow> request \<Rightarrow> store \<Rightarrow> exn + (http_response \<times> store)" where
  "shorten L req s =
     (case shorten_inputs L req of
        Inl e \<Rightarrow> Inl e
      | Inr (long_url, filename) \<Rightarrow>
          (case long_url of
             None \<Rightarrow>
               Inr (jsonify [(''success'', JBool False), (''error'', JStr ''No URL provided.'')] 400, s)
           | Some u \<Rightarrow>
               if u = [] then
                 Inr (jsonify [(''success'', JBool False), (''error'', JStr ''No URL provided.'')] 400, s)
               else if \<not> validate_url L u then
                 Inr (jsonify [(''success'', JBool False), (''error'', JStr ''Invalid URL.'')] 400, s)
               else
                 (let (vid, s') = store_video_url u filename s;
                      host = rstrip_slash (host_url req);
                      short_url = host @ ''/'' @ py_or filename ''video.mp4'' @ ''/download/'' @ py_str vid;
                      player_url = host @ ''/player?vid='' @ py_str vid @ ''&name=''
                                        @ py_or filename ''video.mp4'';
                      cdn_url = host @ ''/cdn/'' @ py_str vid
                  in Inr (jsonify [(''success'', JBool True), (''video_id'', JInt vid),
                                   (''short_url'', JStr short_url), (''player_url'', JStr player_url),
                                   (''cdn_url'', JStr cdn_url),
                                   (''filename'', JStr (py_or filename ''video.mp4''))] 200, s'))))"

text \<open>
  \<^verbatim>\<open>download_or_play\<close> (route \<^verbatim>\<open>/<filename>/download/<int:video_id>\<close>): the converter
  hands the handler an \<^verbatim>\<open>int\<close>.
  \<^verbatim>\<open>
      if video_id not in video_storage:
          video_url = "https://effective-zebra-wqr496wpv6p3g6vx.github.dev/"
          filename = "Expired"
          return render_template('player.html', video_url=video_url,
                                 original_url=video_url, filename=filename)
      video_info = video_storage[video_id]
      video_url = video_info["url"]
      filename = filename or video_info.get("filename", "video.mp4")
      return render_template('player.html', video_url=video_url,
                             original_url=video_url, filename=filename)
  \<close>
\<close>

definition download_or_play :: "string \<Rightarrow> int \<Rightarrow> store \<Rightarrow> http_response" where
  "download_or_play filename video_id s =
     (case video_storage s (PInt video_id) of
        None \<Rightarrow>
          (let video_url = ''https://effective-zebra-wqr496wpv6p3g6vx.github.dev/'';
               filename' = ''Expired''
           in render_template ''player.html''
                [(''video_url'', video_url), (''original_url'', video_url), (''filename'', filename')])
      | Some video_info \<Rightarrow>
          (let video_url = info_url video_info;
               filename' = (if filename \<noteq> [] then filename else info_filename video_info)
           in render_template ''player.html''
                [(''video_url'', video_url), (''original_url'', video_url), (''filename'', filename')]))"

text \<open>
  \<^verbatim>\<open>stream_video\<close> (route \<^verbatim>\<open>/cdn/<video_id>\<close>): without a converter the route hands the
  handler a \<^verbatim>\<open>str\<close>, and that string is the key of the membership test and of the
  lookup. The result is the response (or an exception that the \<^verbatim>\<open>except\<close> clause does
  not catch) together with the outbound requests issued, in order.
  \<^verbatim>\<open>
      if video_id not in video_storage:
          return jsonify({"error": "Video not found"}), 404
      original_url = video_storage[video_id]
      try:
          range_header = request.headers.get('Range')
          headers = {'User-Agent': request.headers.get('User-Agent', 'Mozilla/5.0'),
                     'Accept': '*/*', 'Accept-Language': 'en-US,en;q=0.9',
                     'Accept-Encoding': 'identity', 'Connection': 'keep-alive'}
          if range_header:
              headers['Range'] = range_header
          response = requests.get(original_url, headers=headers, stream=True, timeout=30)
          def generate():
              for chunk in response.iter_content(chunk_size=8192):
                  if chunk:
                      yield chunk
          response_headers = {'Content-Type': response.headers.get('Content-Type', 'video/mp4'),
                              'Accept-Ranges': 'bytes',
                              'Cache-Control': 'public, max-age=3600'}
          content_length = response.headers.get('Content-Length')
          if content_length:
              response_headers['Content-Length'] = content_length
          flask_response = Response(stream_with_context(generate()),
                                    status=response.status_code, headers=response_headers)
          if 'Content-Range' in response.headers:
              flask_response.headers['Content-Range'] = response.headers['Content-Range']
          return flask_response
      except requests.exceptions.RequestException as e:
          return jsonify({"error": f"Failed to stream video: {str(e)}"}), 500
  \<close>
\<close>

definition outbound_headers :: "request \<Rightarrow> (string \<times> string) list" where
  "outbound_headers req =
     (let range_header = req_headers req ''Range'';
          headers = [(''User-Agent'', case req_headers req ''User-Agent'' of
                                        None \<Rightarrow> ''Mozilla/5.0'' | Some ua \<Rightarrow> ua),
                     (''Accept'', ''*/*''),
                     (''Accept-Language'', ''en-US,en;q=0.9''),
                     (''Accept-Encoding'', ''identity''),
                     (''Connection'', ''keep-alive'')]
      in case range_header of
           None \<Rightarrow> headers
         | Some r \<Rightarrow> if r \<noteq> [] then AList.update ''Range'' r headers else headers)"

definition generate :: "upstream_response \<Rightarrow> string list \<times> exn option" where
  "generate response =
     (filter (\<lambda>chunk. chunk \<noteq> []) (fst (iter_content response 8192)),
      snd (iter_content response 8192))"

definition relay :: "upstream_response \<Rightarrow> http_response" where
  "relay response =
     (let response_headers =
            [(''Content-Type'', case up_headers response ''Content-Type'' of
                                  None \<Rightarrow> ''video/mp4'' | Some ct \<Rightarrow> ct),
             (''Accept-Ranges'', ''bytes''),
             (''Cache-Control'', ''public, max-age=3600'')];
          content_length = up_headers response ''Content-Length'';
          response_headers' =
            (case content_length of
               None \<Rightarrow> response_headers
             | Some cl \<Rightarrow>
                 if cl \<noteq> [] then AList.update ''Content-Length'' cl response_headers
                 else response_headers);
          flask_response = \<lparr>resp_status = status_code response,
                            resp_headers = response_headers',
                            resp_body = Streamed (fst (generate response))
                                                 (snd (generate response))\<rparr>
      in case up_headers response ''Content-Range'' of
           None \<Rightarrow> flask_response
         | Some cr \<Rightarrow>
             flask_response\<lparr>resp_headers :=
               AList.update ''Content-Range'' cr (resp_headers flask_response)\<rparr>)"

definition stream_video ::
  "pylib \<Rightarrow> request \<Rightarrow> string \<Rightarrow> store \<Rightarrow> (exn + http_response) \<times> outbound_request list" where
  "stream_video L req video_id s =
     (case video_storage s (PStr video_id) of
        None \<Rightarrow> (Inr (jsonify [(''error'', JStr ''Video not found'')] 404), [])
      | Some original_url \<Rightarrow>
          (let out = \<lparr>out_url = original_url, out_headers = outbound_headers req,
                      out_stream = True, out_timeout = 30\<rparr>
           in case requests_get L out of
                Inl (RequestException k msg) \<Rightarrow>
                  (Inr (jsonify [(''error'', JStr (''Failed to stream video: '' @ msg))] 500), [out])
              | Inl (OtherException msg) \<Rightarrow> (Inl (OtherException msg), [out])
              | Inr response \<Rightarrow> (Inr (relay response), [out])))"

section \<open>A reference instance of the library\<close>

text \<open>
  To run the handlers on concrete requests the library parameter needs a value. The two
  functions below follow CPython's \<^verbatim>\<open>urllib.parse\<close> on byte strings, as far as
  \<^verbatim>\<open>validate_url\<close> looks: \<^verbatim>\<open>unquote\<close> replaces every \<^verbatim>\<open>%XX\<close> with two hexadecimal digits by
  the byte it names and leaves any other \<^verbatim>\<open>%\<close> alone (it never raises; escapes of
  \<^verbatim>\<open>%80\<close> and above, which Python decodes as UTF-8, stay single bytes here);
  \<^verbatim>\<open>urlparse\<close> strips leading control characters and spaces, removes tab, CR and LF,
  takes as scheme the lower-cased text before the first \<^verbatim>\<open>:\<close> when it starts with a
  letter and consists of scheme characters, takes as netloc what follows \<^verbatim>\<open>//\<close> up to
  the first of \<^verbatim>\<open>/ ? #\<close>, and raises \<^verbatim>\<open>ValueError\<close> when only one of \<^verbatim>\<open>[\<close> and \<^verbatim>\<open>]\<close> occurs
  in the netloc. The two functions are the library's on ASCII text whose decoded form is
  ASCII and whose netloc does not hold both brackets; the library's further checks of a bracketed host
  (an IP literal) and of a netloc outside ASCII (its NFKC form) and its UTF-8 decoding of
  escapes from \<^verbatim>\<open>%80\<close> on are not modelled, and no statement below is about such
  input.
\<close>

definition hex_digit :: "char \<Rightarrow> nat option" where
  "hex_digit c =
     map_of (zip ''0123456789abcdef'' [0..<16] @ zip ''ABCDEF'' [10..<16]) c"

definition byte_char :: "nat \<Rightarrow> char" where
  "byte_char n =
     Char (odd n) (odd (n div 2)) (odd (n div 4)) (odd (n div 8))
          (odd (n div 16)) (odd (n div 32)) (odd (n div 64)) (odd (n div 128))"

fun ref_unquote_str :: "string \<Rightarrow> string" where
  "ref_unquote_str (p # a # b # rest) =
     (if p = CHR ''%'' then
        (case hex_digit a of
           None \<Rightarrow> p # ref_unquote_str (a # b # rest)
         | Some x \<Rightarrow>
             (case hex_digit b of
                None \<Rightarrow> p # ref_unquote_str (a # b # rest)
              | Some y \<Rightarrow> byte_char (16 * x + y) # ref_unquote_str rest))
      else p # ref_unquote_str (a # b # rest))"
| "ref_unquote_str cs = cs"

definition ref_unquote :: "string \<Rightarrow> exn + string" where
  "ref_unquote s = Inr (ref_unquote_str s)"

definition scheme_chars :: string where
  "scheme_chars = ''abcdefghijklmnopqrstuvwxyzABCDEFGHIJKLMNOPQRSTUVWXYZ0123456789+-.''"

definition ascii_alpha :: "char \<Rightarrow> bool" where
  "ascii_alpha c = (c \<in> set ''abcdefghijklmnopqrstuvwxyzABCDEFGHIJKLMNOPQRSTUVWXYZ'')"

definition ascii_lower :: "char \<Rightarrow> char" where
  "ascii_lower c =
     (case map_of (zip ''ABCDEFGHIJKLMNOPQRSTUVWXYZ'' ''abcdefghijklmnopqrstuvwxyz'') c of
        None \<Rightarrow> c | Some l \<Rightarrow> l)"

definition split_scheme :: "string \<Rightarrow> string \<times> string" where
  "split_scheme u =
     (case py_find '':'' u of
        None \<Rightarrow> ([], u)
      | Some i \<Rightarrow>
          if 0 < i \<and> list_all ascii_alpha (take 1 u)
               \<and> list_all (\<lambda>c. c \<in> set scheme_chars) (take i u)
          then (map ascii_lower (take i u), drop (Suc i) u)
          else ([], u))"

definition ref_urlparse :: "string \<Rightarrow> exn + parse_result" where
  "ref_urlparse u0 =
     (let u1 = dropWhile (\<lambda>c. of_char c \<le> (32::nat)) u0;
          u = filter (\<lambda>c. c \<notin> set [CHR 0x09, CHR 0x0A, CHR 0x0D]) u1;
          (sch, rest) = split_scheme u
      in if take 2 rest = ''//'' then
           (let nl = takeWhile (\<lambda>c. c \<notin> set ''/?#'') (drop 2 rest)
            in if (CHR ''['' \<in> set nl) \<noteq> (CHR '']'' \<in> set nl)
               then Inl (OtherException ''Invalid IPv6 URL'')
               else Inr \<lparr>scheme = sch, netloc = nl\<rparr>)
         else Inr \<lparr>scheme = sch, netloc = []\<rparr>)"

definition ref_lib :: "(outbound_request \<Rightarrow> exn + upstream_response) \<Rightarrow> pylib" where
  "ref_lib upstream = \<lparr>unquote = ref_unquote, urlparse = ref_urlparse, requests_get = upstream\<rparr>"








section \<open>Concrete requests and upstreams\<close>

text \<open>Requests as a client sends them to a service at \<^verbatim>\<open>http://localhost/\<close>.\<close>

definition get_request :: "(string \<rightharpoonup> string) \<Rightarrow> request" where
  "get_request hdrs =
     \<lparr>req_method = ''GET'', get_json = None, query_string = Inr [], args = Map.empty,
      host_url = ''http://localhost/'', req_headers = hdrs\<rparr>"

definition post_json :: "(string \<rightharpoonup> string) \<Rightarrow> request" where
  "post_json body =
     \<lparr>req_method = ''POST'', get_json = Some body, query_string = Inr [], args = Map.empty,
      host_url = ''http://localhost/'', req_headers = Map.empty\<rparr>"

text \<open>
  An upstream that answers every request with the given status and headers and delivers
  the given chunks to the end.
\<close>

definition upstream_answers ::
  "int \<Rightarrow> (string \<rightharpoonup> string) \<Rightarrow> string list \<Rightarrow> outbound_request \<Rightarrow> exn + upstream_response" where
  "upstream_answers code hdrs chunks out =
     Inr \<lparr>status_code = code, up_headers = hdrs, iter_content = (\<lambda>n. (chunks, None))\<rparr>"

text \<open>An upstream that cannot be reached: every request raises the given failure.\<close>

definition upstream_fails ::
  "request_failure \<Rightarrow> string \<Rightarrow> outbound_request \<Rightarrow> exn + upstream_response" where
  "upstream_fails k msg out = Inl (RequestException k msg)"

section \<open>Properties of the store\<close>

lemma store_video_url_fst: "fst (store_video_url u f s) = video_counter s"
  by (simp add: store_video_url_def Let_def)

lemma store_video_url_counter:
  "video_counter (snd (store_video_url u f s)) = video_counter s + 1"
  by (simp add: store_video_url_def Let_def)

lemma store_video_url_storage:
  "video_storage (snd (store_video_url u f s)) =
     (video_storage s)(PInt (video_counter s) \<mapsto>
        \<lparr>info_url = u, info_filename = py_or f ''video.mp4''\<rparr>)"
  by (simp add: store_video_url_def Let_def)

lemma store_all_counter:
  "video_counter (snd (store_all calls s)) = video_counter s + int (length calls)"
proof (induction calls arbitrary: s)
  case Nil
  show ?case by simp
next
  case (Cons c calls)
  have "video_counter (snd (store_all (c # calls) s)) =
          video_counter (snd (store_all calls (snd (store_video_url (fst c) (snd c) s))))"
    by (simp add: split_beta Let_def)
  also have "\<dots> = video_counter (snd (store_video_url (fst c) (snd c) s)) + int (length calls)"
    by (rule Cons.IH)
  finally show ?case by (simp add: store_video_url_counter)
qed

lemma store_all_ids:
  "fst (store_all calls s) = map (\<lambda>i. video_counter s + int i) [0..<length calls]"
proof (induction calls arbitrary: s)
  case Nil
  show ?case by simp
next
  case (Cons c calls)
  let ?s1 = "snd (store_video_url (fst c) (snd c) s)"
  have "fst (store_all (c # calls) s) = video_counter s # fst (store_all calls ?s1)"
    by (simp add: split_beta Let_def store_video_url_fst)
  also have "fst (store_all calls ?s1) =
               map (\<lambda>i. video_counter s + 1 + int i) [0..<length calls]"
    by (simp add: Cons.IH store_video_url_counter)
  also have "\<dots> = map (\<lambda>i. video_counter s + int i) (map Suc [0..<length calls])"
    by (simp add: add.assoc)
  finally show ?case
    by (simp add: upt_conv_Cons map_Suc_upt del: upt_Suc)
qed

lemma int_keys_below_initial: "int_keys_below initial_store"
  by (simp add: int_keys_below_def initial_store_def)

lemma int_keys_below_step:
  assumes "int_keys_below s" and "1 \<le> video_counter s"
  shows "int_keys_below (snd (store_video_url u f s))"
  using assms
  unfolding int_keys_below_def store_video_url_storage store_video_url_counter
  by (auto simp: dom_def split: if_splits)

lemma int_keys_below_store_all:
  assumes "int_keys_below s" and "1 \<le> video_counter s"
  shows "int_keys_below (snd (store_all calls s))"
  using assms
proof (induction calls arbitrary: s)
  case Nil
  then show ?case by simp
next
  case (Cons c calls)
  let ?s1 = "snd (store_video_url (fst c) (snd c) s)"
  have "int_keys_below ?s1"
    using Cons.prems by (rule int_keys_below_step)
  moreover have "1 \<le> video_counter ?s1"
    using Cons.prems(2) by (simp add: store_video_url_counter)
  ultimately have "int_keys_below (snd (store_all calls ?s1))"
    by (rule Cons.IH)
  then show ?case by (simp add: split_beta Let_def)
qed

lemma int_keys_below_reached: "int_keys_below (snd (store_all calls initial_store))"
  by (rule int_keys_below_store_all [OF int_keys_below_initial])
     (simp add: initial_store_def)

lemma no_str_key_reached: "video_storage (snd (store_all calls initial_store)) (PStr v) = None"
proof (rule ccontr)
  assume "video_storage (snd (store_all calls initial_store)) (PStr v) \<noteq> None"
  then have "PStr v \<in> dom (video_storage (snd (store_all calls initial_store)))"
    by (simp add: dom_def)
  with int_keys_below_reached [of calls] show False
    unfolding int_keys_below_def by blast
qed

lemma store_video_url_keeps:
  assumes "int_keys_below s" and "video_storage s k = Some info"
  shows "video_storage (snd (store_video_url u f s)) k = Some info"
proof -
  from assms have "k \<noteq> PInt (video_counter s)"
    unfolding int_keys_below_def by (auto simp: dom_def)
  with assms(2) show ?thesis by (simp add: store_video_url_storage)
qed

lemma store_all_keeps:
  assumes "int_keys_below s" and "1 \<le> video_counter s" and "video_storage s k = Some info"
  shows "video_storage (snd (store_all calls s)) k = Some info"
  using assms
proof (induction calls arbitrary: s)
  case Nil
  then show ?case by simp
next
  case (Cons c calls)
  let ?s1 = "snd (store_video_url (fst c) (snd c) s)"
  have "int_keys_below ?s1"
    using Cons.prems(1,2) by (rule int_keys_below_step)
  moreover have "1 \<le> video_counter ?s1"
    using Cons.prems(2) by (simp add: store_video_url_counter)
  moreover have "video_storage ?s1 k = Some info"
    using Cons.prems(1,3) by (rule store_video_url_keeps)
  ultimately have "video_storage (snd (store_all calls ?s1)) k = Some info"
    by (rule Cons.IH)
  then show ?case by (simp add: split_beta Let_def)
qed

lemma store_all_reached_counter:
  "video_counter (snd (store_all calls initial_store)) = 1 + int (length calls)"
  by (simp add: store_all_counter initial_store_def)

lemma store_all_reached_ids:
  "fst (store_all calls initial_store) = map int [1..<Suc (length calls)]"
proof -
  have "fst (store_all calls initial_store) = map (\<lambda>i. 1 + int i) [0..<length calls]"
    by (simp add: store_all_ids initial_store_def)
  also have "\<dots> = map int (map Suc [0..<length calls])"
    by simp
  also have "map Suc [0..<length calls] = [1..<Suc (length calls)]"
    by (simp add: map_Suc_upt)
  finally show ?thesis .
qed

lemma store_all_append:
  "snd (store_all (xs @ ys) s) = snd (store_all ys (snd (store_all xs s)))"
  by (induction xs arbitrary: s) (simp_all add: split_beta Let_def)

text \<open>
  \<^verbatim>\<open>shorten\<close>, the one handler that returns a new state, either leaves the state as it
  was or makes one \<^verbatim>\<open>store_video_url\<close> call.
\<close>

lemma shorten_state:
  assumes "shorten L req s = Inr (resp, s')"
  shows "s' = s \<or> (\<exists>u f. s' = snd (store_video_url u f s))"
  using assms
  by (auto simp: shorten_def Let_def split_beta
      split: sum.splits option.splits if_splits prod.splits)

section \<open>Allocation order\<close>

text \<open>
  C2. Any run of \<open>N\<close> calls of \<^verbatim>\<open>store_video_url\<close> on the fresh store returns the ids
  \<open>1, 2, ..., N\<close> in call order, all different; the counter starts at 1, and every call
  returns the current counter and leaves it larger by exactly 1.
\<close>

theorem store_video_url_ids_sequential:
  "fst (store_all calls initial_store) = map int [1..<Suc (length calls)]
   \<and> distinct (fst (store_all calls initial_store))
   \<and> video_counter initial_store = 1
   \<and> fst (store_video_url u f s) = video_counter s
   \<and> video_counter (snd (store_video_url u f s)) = video_counter s + 1"
proof -
  have ids: "fst (store_all calls initial_store) = map int [1..<Suc (length calls)]"
    by (rule store_all_reached_ids)
  have "distinct (map int [1..<Suc (length calls)])"
    unfolding distinct_map by (simp del: upt_Suc)
  then have dist: "distinct (fst (store_all calls initial_store))"
    by (simp only: ids)
  have start: "video_counter initial_store = 1"
    by (simp add: initial_store_def)
  from ids dist start store_video_url_fst [of u f s] store_video_url_counter [of u f s]
  show ?thesis by blast
qed

section \<open>Stored entries are kept\<close>

text \<open>
  C10. In every state that a run of allocations reaches from the fresh store, an entry
  that is in the dictionary is still there, unchanged, after one more
  \<^verbatim>\<open>store_video_url\<close> call, after any further run of calls and after a \<^verbatim>\<open>shorten\<close>
  request, and every key of the dictionary is an integer strictly below the counter.
\<close>

theorem stored_entries_never_change:
  fixes calls more :: "(string \<times> string option) list"
  defines "s \<equiv> snd (store_all calls initial_store)"
  shows "(video_storage s k = Some info \<longrightarrow>
            video_storage (snd (store_video_url u f s)) k = Some info
            \<and> video_storage (snd (store_all more s)) k = Some info)
         \<and> (video_storage s k = Some info \<and> shorten L req s = Inr (resp, s') \<longrightarrow>
               video_storage s' k = Some info)
         \<and> (k \<in> dom (video_storage s) \<longrightarrow> (\<exists>n. k = PInt n \<and> n < video_counter s))"
proof -
  have inv: "int_keys_below s"
    unfolding s_def by (rule int_keys_below_reached)
  have pos: "1 \<le> video_counter s"
    unfolding s_def by (simp add: store_all_reached_counter)
  have keep: "video_storage s k = Some info \<longrightarrow>
                video_storage (snd (store_video_url u f s)) k = Some info
                \<and> video_storage (snd (store_all more s)) k = Some info"
    using store_video_url_keeps [OF inv] store_all_keeps [OF inv pos] by blast
  have below: "k \<in> dom (video_storage s) \<longrightarrow> (\<exists>n. k = PInt n \<and> n < video_counter s)"
    using inv unfolding int_keys_below_def by blast
  have handler: "video_storage s k = Some info \<and> shorten L req s = Inr (resp, s') \<longrightarrow>
                   video_storage s' k = Some info"
    using shorten_state [of L req s resp s'] store_video_url_keeps [OF inv] by blast
  from keep handler below show ?thesis by blast
qed

theorem stored_entries_never_change_witness:
  "video_storage (snd (store_all [(''http://a.example/1.mp4'', None)] initial_store)) (PInt 1)
     = Some \<lparr>info_url = ''http://a.example/1.mp4'', info_filename = ''video.mp4''\<rparr>
   \<and> video_storage (snd (store_video_url ''http://b.example/2.mp4'' (Some ''b.mp4'')
         (snd (store_all [(''http://a.example/1.mp4'', None)] initial_store)))) (PInt 1)
     = Some \<lparr>info_url = ''http://a.example/1.mp4'', info_filename = ''video.mp4''\<rparr>
   \<and> video_storage (snd (store_all [(''http://c.example/3.mp4'', None), (''http://d.example/4.mp4'', None)]
         (snd (store_all [(''http://a.example/1.mp4'', None)] initial_store)))) (PInt 1)
     = Some \<lparr>info_url = ''http://a.example/1.mp4'', info_filename = ''video.mp4''\<rparr>
   \<and> shorten (ref_lib (upstream_fails Timeout [])) (post_json Map.empty)
         (snd (store_all [(''http://a.example/1.mp4'', None)] initial_store))
       = Inr (jsonify [(''success'', JBool False), (''error'', JStr ''No URL provided.'')] 400,
              snd (store_all [(''http://a.example/1.mp4'', None)] initial_store))
   \<and> PInt 1 \<in> dom (video_storage (snd (store_all [(''http://a.example/1.mp4'', None)] initial_store)))
   \<and> (\<exists>n. PInt 1 = PInt n
          \<and> n < video_counter (snd (store_all [(''http://a.example/1.mp4'', None)] initial_store)))"
proof -
  have h: "video_storage (snd (store_all [(''http://a.example/1.mp4'', None)] initial_store)) (PInt 1)
             = Some \<lparr>info_url = ''http://a.example/1.mp4'', info_filename = ''video.mp4''\<rparr>"
    by (simp add: store_video_url_def initial_store_def Let_def)
  then have d: "PInt 1 \<in> dom (video_storage (snd (store_all [(''http://a.example/1.mp4'', None)] initial_store)))"
    by (simp add: dom_def)
  have e: "shorten (ref_lib (upstream_fails Timeout [])) (post_json Map.empty)
         (snd (store_all [(''http://a.example/1.mp4'', None)] initial_store))
       = Inr (jsonify [(''success'', JBool False), (''error'', JStr ''No URL provided.'')] 400,
              snd (store_all [(''http://a.example/1.mp4'', None)] initial_store))"
    by (simp add: shorten_def shorten_inputs_def extract_full_url_def post_json_def Let_def)
  show ?thesis
    using h d e
      stored_entries_never_change [where calls = "[(''http://a.example/1.mp4'', None)]"
        and k = "PInt 1"
        and info = "\<lparr>info_url = ''http://a.example/1.mp4'', info_filename = ''video.mp4''\<rparr>"
        and u = "''http://b.example/2.mp4''" and f = "Some ''b.mp4''"
        and more = "[(''http://c.example/3.mp4'', None), (''http://d.example/4.mp4'', None)]"
        and L = "ref_lib (upstream_fails Timeout [])" and req = "post_json Map.empty"
        and resp = "jsonify [(''success'', JBool False), (''error'', JStr ''No URL provided.'')] 400"
        and s' = "snd (store_all [(''http://a.example/1.mp4'', None)] initial_store)"]
    by blast
qed

lemma reached_unallocated:
  assumes "n \<notin> set (fst (store_all calls initial_store))"
  shows "video_storage (snd (store_all calls initial_store)) (PInt n) = None"
proof (rule ccontr)
  assume "video_storage (snd (store_all calls initial_store)) (PInt n) \<noteq> None"
  then have "PInt n \<in> dom (video_storage (snd (store_all calls initial_store)))"
    by (simp add: dom_def)
  with int_keys_below_reached [of calls]
  have "1 \<le> n \<and> n < video_counter (snd (store_all calls initial_store))"
    unfolding int_keys_below_def by blast
  then have bounds: "1 \<le> n" "n < 1 + int (length calls)"
    by (simp_all add: store_all_reached_counter)
  then have "nat n \<in> {1..<Suc (length calls)}"
    by auto
  then have "nat n \<in> set [1..<Suc (length calls)]"
    by (simp only: set_upt)
  then have "int (nat n) \<in> set (map int [1..<Suc (length calls)])"
    unfolding set_map by (rule imageI)
  with bounds(1) have "n \<in> set (fst (store_all calls initial_store))"
    by (simp only: store_all_reached_ids) simp
  with assms show False by contradiction
qed

lemma reached_allocated:
  assumes "n \<in> set (fst (store_all calls initial_store))"
  shows "\<exists>info. video_storage (snd (store_all calls initial_store)) (PInt n) = Some info"
  using assms
proof (induction calls rule: rev_induct)
  case Nil
  then show ?case by simp
next
  case (snoc c calls)
  let ?s = "snd (store_all calls initial_store)"
  have step: "snd (store_all (calls @ [c]) initial_store) = snd (store_video_url (fst c) (snd c) ?s)"
    by (simp add: store_all_append split_beta Let_def)
  from snoc.prems have "n \<in> set (map int [1..<Suc (Suc (length calls))])"
    by (simp only: store_all_reached_ids) simp
  then have "n = 1 + int (length calls) \<or> n \<in> set (map int [1..<Suc (length calls)])"
    by auto
  then show ?case
  proof
    assume "n = 1 + int (length calls)"
    then have "n = video_counter ?s"
      by (simp add: store_all_reached_counter)
    then show ?thesis
      by (simp only: step store_video_url_storage) simp
  next
    assume "n \<in> set (map int [1..<Suc (length calls)])"
    then have "n \<in> set (fst (store_all calls initial_store))"
      by (simp only: store_all_reached_ids)
    then obtain info where "video_storage ?s (PInt n) = Some info"
      using snoc.IH by blast
    then have "video_storage (snd (store_video_url (fst c) (snd c) ?s)) (PInt n) = Some info"
      by (rule store_video_url_keeps [OF int_keys_below_reached])
    then show ?thesis
      by (simp only: step) blast
  qed
qed

lemma stream_video_not_found:
  assumes "video_storage s (PStr video_id) = None"
  shows "stream_video L req video_id s =
           (Inr (jsonify [(''error'', JStr ''Video not found'')] 404), [])"
  using assms by (simp add: stream_video_def)

section \<open>The player path\<close>

text \<open>
  C5. Let \<^verbatim>\<open>store_video_url(u, f)\<close> return \<open>vid\<close> in a state the service has reached.
  Then \<^verbatim>\<open>download_or_play\<close> on \<open>vid\<close>, at once and after any further allocations, renders
  \<^verbatim>\<open>player.html\<close> with \<open>u\<close> as \<^verbatim>\<open>video_url\<close> and \<^verbatim>\<open>original_url\<close>. On an id that no call has
  returned it renders \<^verbatim>\<open>player.html\<close> with the fixed sentinel URL and the filename
  \<^verbatim>\<open>Expired\<close>. Both are pages with status 200.
\<close>

theorem download_or_play_resolves:
  fixes calls more :: "(string \<times> string option) list"
    and u name :: string and f :: "string option" and n :: int
  defines "s0 \<equiv> snd (store_all calls initial_store)"
  defines "vid \<equiv> fst (store_video_url u f s0)"
  defines "s1 \<equiv> snd (store_video_url u f s0)"
  defines "page \<equiv> render_template ''player.html''
             [(''video_url'', u), (''original_url'', u),
              (''filename'', if name \<noteq> [] then name else py_or f ''video.mp4'')]"
  shows "download_or_play name vid s1 = page
         \<and> download_or_play name vid (snd (store_all more s1)) = page
         \<and> resp_status page = 200
         \<and> (n \<notin> set (fst (store_all calls initial_store)) \<longrightarrow>
              download_or_play name n s0 =
                render_template ''player.html''
                  [(''video_url'', ''https://effective-zebra-wqr496wpv6p3g6vx.github.dev/''),
                   (''original_url'', ''https://effective-zebra-wqr496wpv6p3g6vx.github.dev/''),
                   (''filename'', ''Expired'')]
              \<and> resp_status (download_or_play name n s0) = 200)"
proof -
  have s1_reached: "s1 = snd (store_all (calls @ [(u, f)]) initial_store)"
    by (simp add: s1_def s0_def store_all_append split_beta Let_def)
  have inv: "int_keys_below s1"
    unfolding s1_reached by (rule int_keys_below_reached)
  have pos: "1 \<le> video_counter s1"
    unfolding s1_reached by (simp add: store_all_reached_counter)
  have stored: "video_storage s1 (PInt vid) =
                  Some \<lparr>info_url = u, info_filename = py_or f ''video.mp4''\<rparr>"
    by (simp add: s1_def vid_def store_video_url_storage store_video_url_fst)
  have later: "video_storage (snd (store_all more s1)) (PInt vid) =
                 Some \<lparr>info_url = u, info_filename = py_or f ''video.mp4''\<rparr>"
    using inv pos stored by (rule store_all_keeps)
  have now_page: "download_or_play name vid s1 = page"
    by (simp add: download_or_play_def stored page_def)
  have later_page: "download_or_play name vid (snd (store_all more s1)) = page"
    by (simp add: download_or_play_def later page_def)
  have ok: "resp_status page = 200"
    by (simp add: page_def render_template_def)
  have expired: "n \<notin> set (fst (store_all calls initial_store)) \<longrightarrow>
              download_or_play name n s0 =
                render_template ''player.html''
                  [(''video_url'', ''https://effective-zebra-wqr496wpv6p3g6vx.github.dev/''),
                   (''original_url'', ''https://effective-zebra-wqr496wpv6p3g6vx.github.dev/''),
                   (''filename'', ''Expired'')]
              \<and> resp_status (download_or_play name n s0) = 200"
  proof
    assume "n \<notin> set (fst (store_all calls initial_store))"
    then have "video_storage s0 (PInt n) = None"
      unfolding s0_def by (rule reached_unallocated)
    then show "download_or_play name n s0 =
                render_template ''player.html''
                  [(''video_url'', ''https://effective-zebra-wqr496wpv6p3g6vx.github.dev/''),
                   (''original_url'', ''https://effective-zebra-wqr496wpv6p3g6vx.github.dev/''),
                   (''filename'', ''Expired'')]
              \<and> resp_status (download_or_play name n s0) = 200"
      by (simp add: download_or_play_def render_template_def Let_def)
  qed
  from now_page later_page ok expired show ?thesis by blast
qed

theorem download_or_play_resolves_witness:
  "download_or_play ''clip.mp4'' 2
     (snd (store_video_url ''http://example.com/v.mp4'' None
        (snd (store_all [(''http://a.example/1.mp4'', None)] initial_store))))
     = render_template ''player.html''
         [(''video_url'', ''http://example.com/v.mp4''),
          (''original_url'', ''http://example.com/v.mp4''), (''filename'', ''clip.mp4'')]
   \<and> 7 \<notin> set (fst (store_all [(''http://a.example/1.mp4'', None)] initial_store))
   \<and> download_or_play ''clip.mp4'' 7 (snd (store_all [(''http://a.example/1.mp4'', None)] initial_store))
     = render_template ''player.html''
         [(''video_url'', ''https://effective-zebra-wqr496wpv6p3g6vx.github.dev/''),
          (''original_url'', ''https://effective-zebra-wqr496wpv6p3g6vx.github.dev/''),
          (''filename'', ''Expired'')]"
proof -
  have vid: "fst (store_video_url ''http://example.com/v.mp4'' None
               (snd (store_all [(''http://a.example/1.mp4'', None)] initial_store))) = 2"
    by (simp add: store_video_url_def initial_store_def Let_def)
  have fresh: "7 \<notin> set (fst (store_all [(''http://a.example/1.mp4'', None)] initial_store))"
    by (simp add: store_video_url_def initial_store_def Let_def)
  show ?thesis
    using fresh
      download_or_play_resolves [where name = "''clip.mp4''" and u = "''http://example.com/v.mp4''"
        and f = None and calls = "[(''http://a.example/1.mp4'', None)]" and more = "[]" and n = 7]
    unfolding vid by simp
qed

section \<open>The streaming path: unknown ids\<close>

text \<open>
  C6. When the route string is not a key of the dictionary, \<^verbatim>\<open>stream_video\<close> answers
  404 with the JSON body \<^verbatim>\<open>{"error": "Video not found"}\<close> and issues no outbound
  request, whatever the library and the upstream would do.
\<close>

theorem stream_video_unknown_id:
  assumes "video_storage s (PStr video_id) = None"
  shows "stream_video L req video_id s =
           (Inr \<lparr>resp_status = 404, resp_headers = [],
                  resp_body = Json [(''error'', JStr ''Video not found'')]\<rparr>, [])
         \<and> snd (stream_video L req video_id s) = []"
  using stream_video_not_found [OF assms, of L req] by (simp add: jsonify_def)

theorem stream_video_unknown_id_witness:
  "video_storage initial_store (PStr ''42'') = None
   \<and> stream_video (ref_lib (upstream_answers 200 Map.empty [''abcd'']))
        (get_request Map.empty) ''42'' initial_store =
       (Inr \<lparr>resp_status = 404, resp_headers = [],
              resp_body = Json [(''error'', JStr ''Video not found'')]\<rparr>, [])
   \<and> snd (stream_video (ref_lib (upstream_answers 200 Map.empty [''abcd'']))
        (get_request Map.empty) ''42'' initial_store) = []"
proof -
  have h: "video_storage initial_store (PStr ''42'') = None"
    by (simp add: initial_store_def)
  show ?thesis
    using h stream_video_unknown_id [OF h, of "ref_lib (upstream_answers 200 Map.empty [''abcd''])"
        "get_request Map.empty"]
    by blast
qed

section \<open>The streaming path: allocated ids\<close>

text \<open>
  C3. In every state the service reaches, the dictionary has no string key. So for each
  id \<open>n\<close> that \<^verbatim>\<open>store_video_url\<close> has returned, the entry is stored under the integer
  \<open>n\<close>, the lookup of the route string \<^verbatim>\<open>str(n)\<close> fails, and \<^verbatim>\<open>GET /cdn/n\<close> answers 404
  \<^verbatim>\<open>{"error": "Video not found"}\<close> without any outbound request. The same holds for
  every route string \<open>v\<close>.
\<close>

theorem stream_video_allocated_id_not_found:
  fixes calls :: "(string \<times> string option) list"
  defines "s \<equiv> snd (store_all calls initial_store)"
  shows "(n \<in> set (fst (store_all calls initial_store)) \<longrightarrow>
            (\<exists>info. video_storage s (PInt n) = Some info)
            \<and> video_storage s (PStr (py_str n)) = None
            \<and> stream_video L req (py_str n) s =
                (Inr (jsonify [(''error'', JStr ''Video not found'')] 404), []))
         \<and> stream_video L req v s =
              (Inr (jsonify [(''error'', JStr ''Video not found'')] 404), [])"
proof -
  have none: "\<And>w. video_storage s (PStr w) = None"
    unfolding s_def by (rule no_str_key_reached)
  have any: "\<And>w. stream_video L req w s =
                    (Inr (jsonify [(''error'', JStr ''Video not found'')] 404), [])"
    by (rule stream_video_not_found [OF none])
  have stored: "n \<in> set (fst (store_all calls initial_store)) \<longrightarrow>
                  (\<exists>info. video_storage s (PInt n) = Some info)"
    unfolding s_def using reached_allocated by blast
  from none [of "py_str n"] any [of "py_str n"] any [of v] stored show ?thesis by blast
qed

theorem stream_video_allocated_id_not_found_witness:
  "1 \<in> set (fst (store_all [(''http://example.com/v.mp4'', None)] initial_store))
   \<and> video_storage (snd (store_all [(''http://example.com/v.mp4'', None)] initial_store)) (PInt 1)
       = Some \<lparr>info_url = ''http://example.com/v.mp4'', info_filename = ''video.mp4''\<rparr>
   \<and> video_storage (snd (store_all [(''http://example.com/v.mp4'', None)] initial_store)) (PStr ''1'')
       = None
   \<and> stream_video (ref_lib (upstream_answers 206 Map.empty [''abcd'']))
        (get_request Map.empty) ''1''
        (snd (store_all [(''http://example.com/v.mp4'', None)] initial_store)) =
       (Inr (jsonify [(''error'', JStr ''Video not found'')] 404), [])"
proof -
  have one: "py_str 1 = ''1''"
    by code_simp
  have mem: "1 \<in> set (fst (store_all [(''http://example.com/v.mp4'', None)] initial_store))"
    by (simp add: store_video_url_def initial_store_def Let_def)
  have stored: "video_storage (snd (store_all [(''http://example.com/v.mp4'', None)] initial_store)) (PInt 1)
       = Some \<lparr>info_url = ''http://example.com/v.mp4'', info_filename = ''video.mp4''\<rparr>"
    by (simp add: store_video_url_def initial_store_def Let_def)
  show ?thesis
    using mem stored
      stream_video_allocated_id_not_found [where n = 1
        and calls = "[(''http://example.com/v.mp4'', None)]"
        and L = "ref_lib (upstream_answers 206 Map.empty [''abcd''])"
        and req = "get_request Map.empty" and v = "''1''"]
    unfolding one by blast
qed

lemma reached_after_one_call:
  "fst (store_all [(u, f)] initial_store) = [1]"
  "video_storage (snd (store_all [(u, f)] initial_store)) (PInt 1) =
     Some \<lparr>info_url = u, info_filename = py_or f ''video.mp4''\<rparr>"
  by (simp_all add: store_video_url_def initial_store_def Let_def)

section \<open>The header sets of the streaming path\<close>

text \<open>
  The header maps that \<^verbatim>\<open>stream_video\<close> would build after its membership test, whatever
  the store: the outbound \<^verbatim>\<open>Range\<close> entry is the inbound one when that is not empty, and
  the relayed response has the upstream status, \<^verbatim>\<open>Content-Type\<close> (default \<^verbatim>\<open>video/mp4\<close>),
  \<^verbatim>\<open>Accept-Ranges\<close>, \<^verbatim>\<open>Cache-Control\<close>, a non-empty upstream \<^verbatim>\<open>Content-Length\<close> and the
  upstream \<^verbatim>\<open>Content-Range\<close>.
\<close>

lemma outbound_headers_range:
  "map_of (outbound_headers req) ''Range'' =
     (case req_headers req ''Range'' of
        None \<Rightarrow> None
      | Some r \<Rightarrow> if r = [] then None else Some r)"
  by (simp add: outbound_headers_def Let_def update_conv' split: option.splits)

lemma relay_headers:
  "map_of (resp_headers (relay response)) ''Content-Type'' =
     Some (case up_headers response ''Content-Type'' of None \<Rightarrow> ''video/mp4'' | Some ct \<Rightarrow> ct)"
  "map_of (resp_headers (relay response)) ''Accept-Ranges'' = Some ''bytes''"
  "map_of (resp_headers (relay response)) ''Cache-Control'' = Some ''public, max-age=3600''"
  "map_of (resp_headers (relay response)) ''Content-Length'' =
     (case up_headers response ''Content-Length'' of
        None \<Rightarrow> None
      | Some cl \<Rightarrow> if cl = [] then None else Some cl)"
  "map_of (resp_headers (relay response)) ''Content-Range'' = up_headers response ''Content-Range''"
  "resp_status (relay response) = status_code response"
  by (simp_all add: relay_def Let_def update_conv' split: option.splits)

section \<open>The streaming path on an allocated id: Range, relay and upstream failure\<close>

text \<open>
  C7, evaluated on the code. The fresh store allocates id 1 for
  \<^verbatim>\<open>http://example.com/v.mp4\<close>. \<^verbatim>\<open>GET /cdn/1\<close> with the header \<^verbatim>\<open>Range: bytes=0-99\<close> hands
  \<^verbatim>\<open>stream_video\<close> the string \<^verbatim>\<open>"1"\<close>; the entry is under the integer 1, so the handler
  answers 404 \<^verbatim>\<open>{"error": "Video not found"}\<close> and issues no outbound request: the
  \<^verbatim>\<open>Range\<close> header is forwarded to nobody.
\<close>

theorem cdn_range_request_sends_nothing:
  "fst (store_all [(''http://example.com/v.mp4'', None)] initial_store) = [1]
   \<and> video_storage (snd (store_all [(''http://example.com/v.mp4'', None)] initial_store)) (PInt 1) =
       Some \<lparr>info_url = ''http://example.com/v.mp4'', info_filename = ''video.mp4''\<rparr>
   \<and> req_headers (get_request [''Range'' \<mapsto> ''bytes=0-99'']) ''Range'' = Some ''bytes=0-99''
   \<and> stream_video (ref_lib (upstream_answers 206 Map.empty [''abcd'']))
         (get_request [''Range'' \<mapsto> ''bytes=0-99'']) ''1''
         (snd (store_all [(''http://example.com/v.mp4'', None)] initial_store)) =
       (Inr \<lparr>resp_status = 404, resp_headers = [],
              resp_body = Json [(''error'', JStr ''Video not found'')]\<rparr>, [])"
proof -
  have "stream_video (ref_lib (upstream_answers 206 Map.empty [''abcd'']))
          (get_request [''Range'' \<mapsto> ''bytes=0-99'']) ''1''
          (snd (store_all [(''http://example.com/v.mp4'', None)] initial_store)) =
        (Inr (jsonify [(''error'', JStr ''Video not found'')] 404), [])"
    by (rule stream_video_not_found [OF no_str_key_reached])
  then have answer: "stream_video (ref_lib (upstream_answers 206 Map.empty [''abcd'']))
          (get_request [''Range'' \<mapsto> ''bytes=0-99'']) ''1''
          (snd (store_all [(''http://example.com/v.mp4'', None)] initial_store)) =
        (Inr \<lparr>resp_status = 404, resp_headers = [],
               resp_body = Json [(''error'', JStr ''Video not found'')]\<rparr>, [])"
    by (simp only: jsonify_def)
  have ids: "fst (store_all [(''http://example.com/v.mp4'', None)] initial_store) = [1]"
    by (rule reached_after_one_call)
  have stored: "video_storage (snd (store_all [(''http://example.com/v.mp4'', None)] initial_store)) (PInt 1) =
       Some \<lparr>info_url = ''http://example.com/v.mp4'', info_filename = ''video.mp4''\<rparr>"
    by (simp only: reached_after_one_call py_or.simps)
  have range: "req_headers (get_request [''Range'' \<mapsto> ''bytes=0-99'']) ''Range'' = Some ''bytes=0-99''"
    by (simp add: get_request_def)
  from ids stored range answer show ?thesis by blast
qed

text \<open>
  C8, evaluated on the code. With id 1 allocated as above and an upstream that would
  answer 206 with \<^verbatim>\<open>Content-Type: video/webm\<close>, \<^verbatim>\<open>Content-Length: 4\<close>,
  \<^verbatim>\<open>Content-Range: bytes 0-3/10\<close> and the body \<^verbatim>\<open>abcd\<close>, \<^verbatim>\<open>GET /cdn/1\<close> answers 404 with a
  JSON body and none of the relayed headers; the upstream is never asked, so nothing of
  its response is relayed.
\<close>

theorem cdn_upstream_response_is_not_relayed:
  "fst (store_all [(''http://example.com/v.mp4'', None)] initial_store) = [1]
   \<and> stream_video
         (ref_lib (upstream_answers 206
            [''Content-Type'' \<mapsto> ''video/webm'', ''Content-Length'' \<mapsto> ''4'',
             ''Content-Range'' \<mapsto> ''bytes 0-3/10''] [''abcd'']))
         (get_request Map.empty) ''1''
         (snd (store_all [(''http://example.com/v.mp4'', None)] initial_store)) =
       (Inr \<lparr>resp_status = 404, resp_headers = [],
              resp_body = Json [(''error'', JStr ''Video not found'')]\<rparr>, [])"
proof -
  have "stream_video
          (ref_lib (upstream_answers 206
             [''Content-Type'' \<mapsto> ''video/webm'', ''Content-Length'' \<mapsto> ''4'',
              ''Content-Range'' \<mapsto> ''bytes 0-3/10''] [''abcd'']))
          (get_request Map.empty) ''1''
          (snd (store_all [(''http://example.com/v.mp4'', None)] initial_store)) =
        (Inr (jsonify [(''error'', JStr ''Video not found'')] 404), [])"
    by (rule stream_video_not_found [OF no_str_key_reached])
  then have answer: "stream_video
          (ref_lib (upstream_answers 206
             [''Content-Type'' \<mapsto> ''video/webm'', ''Content-Length'' \<mapsto> ''4'',
              ''Content-Range'' \<mapsto> ''bytes 0-3/10''] [''abcd'']))
          (get_request Map.empty) ''1''
          (snd (store_all [(''http://example.com/v.mp4'', None)] initial_store)) =
        (Inr \<lparr>resp_status = 404, resp_headers = [],
               resp_body = Json [(''error'', JStr ''Video not found'')]\<rparr>, [])"
    by (simp only: jsonify_def)
  have ids: "fst (store_all [(''http://example.com/v.mp4'', None)] initial_store) = [1]"
    by (rule reached_after_one_call)
  from ids answer show ?thesis by blast
qed

text \<open>
  C9, evaluated on the code. With id 1 allocated as above and an upstream on which every
  request times out, \<^verbatim>\<open>GET /cdn/1\<close> answers 404 \<^verbatim>\<open>{"error": "Video not found"}\<close>, not 500
  with the text of the timeout, and the number of upstream attempts is zero, not one.
\<close>

theorem cdn_unreachable_upstream_is_not_found:
  "fst (store_all [(''http://example.com/v.mp4'', None)] initial_store) = [1]
   \<and> stream_video (ref_lib (upstream_fails Timeout ''Read timed out.''))
         (get_request Map.empty) ''1''
         (snd (store_all [(''http://example.com/v.mp4'', None)] initial_store)) =
       (Inr \<lparr>resp_status = 404, resp_headers = [],
              resp_body = Json [(''error'', JStr ''Video not found'')]\<rparr>, [])
   \<and> length (snd (stream_video (ref_lib (upstream_fails Timeout ''Read timed out.''))
         (get_request Map.empty) ''1''
         (snd (store_all [(''http://example.com/v.mp4'', None)] initial_store)))) = 0"
proof -
  have "stream_video (ref_lib (upstream_fails Timeout ''Read timed out.''))
          (get_request Map.empty) ''1''
          (snd (store_all [(''http://example.com/v.mp4'', None)] initial_store)) =
        (Inr (jsonify [(''error'', JStr ''Video not found'')] 404), [])"
    by (rule stream_video_not_found [OF no_str_key_reached])
  then have answer: "stream_video (ref_lib (upstream_fails Timeout ''Read timed out.''))
          (get_request Map.empty) ''1''
          (snd (store_all [(''http://example.com/v.mp4'', None)] initial_store)) =
        (Inr \<lparr>resp_status = 404, resp_headers = [],
               resp_body = Json [(''error'', JStr ''Video not found'')]\<rparr>, [])"
    by (simp only: jsonify_def)
  then have attempts: "length (snd (stream_video (ref_lib (upstream_fails Timeout ''Read timed out.''))
         (get_request Map.empty) ''1''
         (snd (store_all [(''http://example.com/v.mp4'', None)] initial_store)))) = 0"
    by (simp only: snd_conv list.size)
  have ids: "fst (store_all [(''http://example.com/v.mp4'', None)] initial_store) = [1]"
    by (rule reached_after_one_call)
  from ids answer attempts show ?thesis by blast
qed

section \<open>The reference library on families of URLs\<close>


















section \<open>URL validation\<close>




section \<open>The shorten-then-stream scenario\<close>

text \<open>
  C1, evaluated on the code. On the fresh store, \<^verbatim>\<open>POST /shorten\<close> with the JSON body
  \<^verbatim>\<open>{"url": "http://example.com/v.mp4"}\<close> succeeds with \<^verbatim>\<open>video_id\<close> 1 and a \<^verbatim>\<open>cdn_url\<close>
  that ends in \<^verbatim>\<open>/cdn/1\<close>, and stores the entry under the integer 1. The following
  \<^verbatim>\<open>GET /cdn/1\<close> hands \<^verbatim>\<open>stream_video\<close> the string \<^verbatim>\<open>"1"\<close>: although the upstream would
  answer 206 with body \<^verbatim>\<open>abcd\<close>, the handler answers 404
  \<^verbatim>\<open>{"error": "Video not found"}\<close> and sends the upstream nothing.
\<close>

theorem shorten_then_cdn_is_not_found:
  "shorten (ref_lib (upstream_answers 206 Map.empty [''abcd'']))
     (post_json [''url'' \<mapsto> ''http://example.com/v.mp4'']) initial_store =
     Inr (\<lparr>resp_status = 200, resp_headers = [],
            resp_body = Json [(''success'', JBool True), (''video_id'', JInt 1),
              (''short_url'', JStr ''http://localhost/video.mp4/download/1''),
              (''player_url'', JStr ''http://localhost/player?vid=1&name=video.mp4''),
              (''cdn_url'', JStr ''http://localhost/cdn/1''),
              (''filename'', JStr ''video.mp4'')]\<rparr>,
          snd (store_video_url ''http://example.com/v.mp4'' None initial_store))
   \<and> video_storage (snd (store_video_url ''http://example.com/v.mp4'' None initial_store)) (PInt 1) =
       Some \<lparr>info_url = ''http://example.com/v.mp4'', info_filename = ''video.mp4''\<rparr>
   \<and> stream_video (ref_lib (upstream_answers 206 Map.empty [''abcd'']))
       (get_request Map.empty) ''1''
       (snd (store_video_url ''http://example.com/v.mp4'' None initial_store)) =
       (Inr \<lparr>resp_status = 404, resp_headers = [],
              resp_body = Json [(''error'', JStr ''Video not found'')]\<rparr>, [])"
proof -
  let ?L = "ref_lib (upstream_answers 206 Map.empty [''abcd''])"
  have valid: "validate_url ?L ''http://example.com/v.mp4''"
    by code_simp
  have one: "py_str 1 = ''1''"
    by code_simp
  have host: "rstrip_slash ''http://localhost/'' = ''http://localhost''"
    by code_simp
  have inputs: "shorten_inputs ?L (post_json [''url'' \<mapsto> ''http://example.com/v.mp4'']) =
                  Inr (Some ''http://example.com/v.mp4'', None)"
    by (simp add: shorten_inputs_def post_json_def Let_def)
  have first: "shorten ?L (post_json [''url'' \<mapsto> ''http://example.com/v.mp4'']) initial_store =
     Inr (\<lparr>resp_status = 200, resp_headers = [],
            resp_body = Json [(''success'', JBool True), (''video_id'', JInt 1),
              (''short_url'', JStr ''http://localhost/video.mp4/download/1''),
              (''player_url'', JStr ''http://localhost/player?vid=1&name=video.mp4''),
              (''cdn_url'', JStr ''http://localhost/cdn/1''),
              (''filename'', JStr ''video.mp4'')]\<rparr>,
          snd (store_video_url ''http://example.com/v.mp4'' None initial_store))"
    unfolding shorten_def inputs
    by (simp add: valid jsonify_def split_beta Let_def store_video_url_fst one host
        initial_store_def post_json_def)
  have stored: "video_storage (snd (store_video_url ''http://example.com/v.mp4'' None initial_store)) (PInt 1) =
       Some \<lparr>info_url = ''http://example.com/v.mp4'', info_filename = ''video.mp4''\<rparr>"
    by (simp add: store_video_url_storage initial_store_def)
  have second: "stream_video ?L (get_request Map.empty) ''1''
       (snd (store_video_url ''http://example.com/v.mp4'' None initial_store)) =
       (Inr \<lparr>resp_status = 404, resp_headers = [],
              resp_body = Json [(''error'', JStr ''Video not found'')]\<rparr>, [])"
    by (simp add: stream_video_def jsonify_def store_video_url_storage initial_store_def)
  from first stored second show ?thesis by blast
qed


end
